theory Spec2Isabelle
  imports Complex_Main "HOL-Library.Word" "HOL-Library.Char_ord" "HOL-Library.List_Lexorder"
begin

section \<open>Data model\<close>

text \<open>
  A numpy float sample is either NaN or a number. Numbers are modelled as reals:
  comparisons on finite floats agree with the comparisons on the reals they denote.
  The cast to float32 of \<open>normalize_raster\<close> is modelled (\<open>astype_float32\<close> below); the
  rounding of each arithmetic operation and the infinities are outside the model.
\<close>

datatype sample = NaN | Val real

fun isnan :: "sample \<Rightarrow> bool" where
  "isnan NaN = True"
| "isnan (Val _) = False"

text \<open>IEEE comparisons: every ordered comparison with NaN is false, \<open>!=\<close> with NaN is true.\<close>

fun sample_lt :: "sample \<Rightarrow> sample \<Rightarrow> bool" where
  "sample_lt (Val a) (Val b) = (a < b)"
| "sample_lt _ _ = False"

fun sample_le :: "sample \<Rightarrow> sample \<Rightarrow> bool" where
  "sample_le (Val a) (Val b) = (a \<le> b)"
| "sample_le _ _ = False"

fun sample_gt :: "sample \<Rightarrow> sample \<Rightarrow> bool" where
  "sample_gt (Val a) (Val b) = (a > b)"
| "sample_gt _ _ = False"

fun sample_ne :: "sample \<Rightarrow> sample \<Rightarrow> bool" where
  "sample_ne (Val a) (Val b) = (a \<noteq> b)"
| "sample_ne _ _ = True"

text \<open>
  A two-dimensional numpy array: its shape (rows, columns) and its samples in row-major
  order. \<open>wf_array\<close> is the invariant every numpy array satisfies.
\<close>

record 'a ndarray =
  shape :: "nat \<times> nat"
  data :: "'a list"

definition wf_array :: "'a ndarray \<Rightarrow> bool" where
  "wf_array a = (length (data a) = fst (shape a) * snd (shape a))"


definition array_map :: "('a \<Rightarrow> 'b) \<Rightarrow> 'a ndarray \<Rightarrow> 'b ndarray" where
  "array_map f a = \<lparr>shape = shape a, data = map f (data a)\<rparr>"

definition zeros_like :: "'a ndarray \<Rightarrow> 'b::zero ndarray" where
  "zeros_like a = \<lparr>shape = shape a, data = replicate (length (data a)) 0\<rparr>"

text \<open>The exceptions of the Python code, as values.\<close>

datatype py_error =
    ValueError string
  | TypeError string
  | IndexError string
  | KeyError string
  | ZeroDivisionError
  | LibraryError string

text \<open>\<open>arr[mask]\<close> with a boolean mask: the selected samples, in row-major order.\<close>

fun bool_index :: "bool list \<Rightarrow> 'a list \<Rightarrow> 'a list" where
  "bool_index (m # ms) (x # xs) = (if m then x # bool_index ms xs else bool_index ms xs)"
| "bool_index _ _ = []"

text \<open>
  \<open>arr[mask] = values\<close>: the values are written, in order, to the positions where the
  mask is true. In the code below the values are always computed from a selection with
  the same mask, so they never run out.
\<close>

fun bool_assign :: "bool list \<Rightarrow> 'a list \<Rightarrow> 'a list \<Rightarrow> 'a list" where
  "bool_assign (True # ms) (v # vs) (c # cs) = v # bool_assign ms vs cs"
| "bool_assign (True # ms) [] (c # cs) = c # bool_assign ms [] cs"
| "bool_assign (False # ms) vs (c # cs) = c # bool_assign ms vs cs"
| "bool_assign _ _ cs = cs"

text \<open>\<open>arr[mask] = v\<close> with a scalar: every selected position receives \<open>v\<close>.\<close>

fun bool_fill :: "bool list \<Rightarrow> 'a \<Rightarrow> 'a list \<Rightarrow> 'a list" where
  "bool_fill (m # ms) v (c # cs) = (if m then v else c) # bool_fill ms v cs"
| "bool_fill _ _ cs = cs"

section \<open>Flood detection: \<open>sar_processing.py\<close>\<close>

definition nodata_value :: real where
  "nodata_value = -9999"

definition valid_sample :: "sample \<Rightarrow> bool" where
  "valid_sample x = (\<not> isnan x \<and> sample_ne x (Val nodata_value))"

definition astype_uint8 :: "bool \<Rightarrow> 8 word" where
  "astype_uint8 b = (if b then 1 else 0)"

text \<open>
  \<open>apply_threshold\<close>. The automatic threshold is computed by \<open>skimage\<close>'s
  \<open>threshold_otsu\<close>, a library function: it is the parameter \<open>otsu\<close>, from the selected
  samples to a threshold or an exception. In manual mode the log line formats the
  threshold with \<open>:.2f\<close>, which raises TypeError on \<open>None\<close>.
\<close>

definition apply_threshold ::
  "(sample list \<Rightarrow> py_error + real) \<Rightarrow> sample ndarray \<Rightarrow> real option \<Rightarrow> bool
     \<Rightarrow> py_error + 8 word ndarray" where
  "apply_threshold otsu sar_array threshold use_otsu =
     (let valid_mask = map valid_sample (data sar_array);
          chosen = (if use_otsu then otsu (bool_index valid_mask (data sar_array))
                    else (case threshold of
                            None \<Rightarrow> Inl (TypeError ''unsupported format string passed to NoneType.__format__'')
                          | Some t \<Rightarrow> Inr t))
      in case chosen of
           Inl e \<Rightarrow> Inl e
         | Inr t \<Rightarrow>
             (let water_mask = zeros_like sar_array;
                  selected = map (\<lambda>x. astype_uint8 (sample_lt x (Val t)))
                               (bool_index valid_mask (data sar_array))
              in Inr (water_mask\<lparr>data := bool_assign valid_mask selected (data water_mask)\<rparr>)))"

text \<open>
  \<open>apply_dem_mask\<close>. A boolean index whose shape differs from the indexed array's raises
  IndexError in numpy.
\<close>

definition apply_dem_mask ::
  "8 word ndarray \<Rightarrow> sample ndarray \<Rightarrow> real \<Rightarrow> py_error + 8 word ndarray" where
  "apply_dem_mask water_mask dem_array elevation_threshold =
     (let high_elevation = array_map (\<lambda>e. sample_gt e (Val elevation_threshold)) dem_array
      in if shape high_elevation \<noteq> shape water_mask
         then Inl (IndexError ''boolean index did not match indexed array'')
         else Inr (water_mask\<lparr>data := bool_fill (data high_elevation) 0 (data water_mask)\<rparr>))"

text \<open>
  Morphological cleanup. \<open>binary_opening\<close> and \<open>binary_closing\<close> are \<open>scipy.ndimage\<close>
  functions; they are modelled from their documented behaviour for the structuring
  element \<open>generate_binary_structure(2, 1)\<close> (a pixel and its four edge neighbours) and
  the default \<open>border_value = 0\<close>: a neighbour outside the array counts as background.
\<close>

fun chop_rows :: "nat \<Rightarrow> nat \<Rightarrow> 'a list \<Rightarrow> 'a list list" where
  "chop_rows 0 w xs = []"
| "chop_rows (Suc h) w xs = take w xs # chop_rows h w (drop w xs)"

text \<open>Rows of a grid: \<open>h\<close> rows of \<open>w\<close> samples each.\<close>

definition grid :: "nat \<Rightarrow> nat \<Rightarrow> 'a list list \<Rightarrow> bool" where
  "grid h w rs = (length rs = h \<and> (\<forall>r \<in> set rs. length r = w))"

definition array_rows :: "'a ndarray \<Rightarrow> 'a list list" where
  "array_rows a = chop_rows (fst (shape a)) (snd (shape a)) (data a)"

text \<open>
  The image of each pixel's left, right, upper and lower neighbour: the rows shifted by
  one position, the vacated border filled with background.
\<close>

definition left_neighbour :: "bool list \<Rightarrow> bool list" where
  "left_neighbour r = take (length r) (False # r)"

definition right_neighbour :: "bool list \<Rightarrow> bool list" where
  "right_neighbour r = drop 1 (r @ [False])"

definition upper_neighbour :: "nat \<Rightarrow> bool list list \<Rightarrow> bool list list" where
  "upper_neighbour w rs = take (length rs) (replicate w False # rs)"

definition lower_neighbour :: "nat \<Rightarrow> bool list list \<Rightarrow> bool list list" where
  "lower_neighbour w rs = drop 1 (rs @ [replicate w False])"

definition join :: "bool \<Rightarrow> bool \<Rightarrow> bool \<Rightarrow> bool" where
  "join dil x y = (if dil then x \<or> y else x \<and> y)"

definition join_rows :: "bool \<Rightarrow> bool list list \<Rightarrow> bool list list \<Rightarrow> bool list list" where
  "join_rows dil xs ys = map2 (map2 (join dil)) xs ys"

text \<open>
  One pass of erosion (\<open>dil = False\<close>: a pixel survives when it and its four neighbours are
  set) or of dilation (\<open>dil = True\<close>: a pixel is set when it or one of its neighbours is).
  Every numpy array satisfies \<open>wf_array\<close>; a record that does not is left as it is.
\<close>

definition binary_step :: "bool \<Rightarrow> bool ndarray \<Rightarrow> bool ndarray" where
  "binary_step dil a =
     (if wf_array a
      then (let rs = array_rows a;
                w = snd (shape a);
                horizontal = join_rows dil (map left_neighbour rs) (map right_neighbour rs);
                vertical = join_rows dil (upper_neighbour w rs) (lower_neighbour w rs)
            in \<lparr>shape = shape a,
                data = concat (join_rows dil rs (join_rows dil horizontal vertical))\<rparr>)
      else a)"

text \<open>The measure that decreases while a pass still changes the array.\<close>

definition unsettled :: "bool \<Rightarrow> bool ndarray \<Rightarrow> nat" where
  "unsettled dil a = length (filter (\<lambda>b. b \<noteq> dil) (data a))"

text \<open>
  With \<open>iterations < 1\<close> scipy repeats the pass until a pass changes nothing.
\<close>

function until_stable :: "bool \<Rightarrow> bool ndarray \<Rightarrow> bool ndarray" where
  "until_stable dil a =
     (let a' = binary_step dil a in if a' = a then a' else until_stable dil a')"
  by pat_completeness auto

definition binary_erosion :: "bool ndarray \<Rightarrow> int \<Rightarrow> bool ndarray" where
  "binary_erosion a iterations =
     (if 1 \<le> iterations then (binary_step False ^^ nat iterations) a else until_stable False a)"

definition binary_dilation :: "bool ndarray \<Rightarrow> int \<Rightarrow> bool ndarray" where
  "binary_dilation a iterations =
     (if 1 \<le> iterations then (binary_step True ^^ nat iterations) a else until_stable True a)"

definition binary_opening :: "bool ndarray \<Rightarrow> int \<Rightarrow> bool ndarray" where
  "binary_opening a iterations = binary_dilation (binary_erosion a iterations) iterations"

definition binary_closing :: "bool ndarray \<Rightarrow> int \<Rightarrow> bool ndarray" where
  "binary_closing a iterations = binary_erosion (binary_dilation a iterations) iterations"

definition apply_morphological_operations :: "8 word ndarray \<Rightarrow> int \<Rightarrow> 8 word ndarray" where
  "apply_morphological_operations mask_array kernel_size =
     (let opened = binary_opening (array_map (\<lambda>v. v \<noteq> 0) mask_array) kernel_size;
          cleaned = binary_closing opened kernel_size
      in array_map astype_uint8 cleaned)"

text \<open>
  \<open>process_sar_for_flood\<close>, from the two arrays read from disk to the mask it returns.
  Reading the rasters and saving the result are input and output, not modelled.
\<close>

definition process_sar_for_flood ::
  "(sample list \<Rightarrow> py_error + real) \<Rightarrow> sample ndarray \<Rightarrow> sample ndarray \<Rightarrow> real option
     \<Rightarrow> bool \<Rightarrow> real \<Rightarrow> int \<Rightarrow> py_error + 8 word ndarray" where
  "process_sar_for_flood otsu sar_array dem_array threshold use_otsu dem_threshold morphology_kernel =
     (if shape sar_array \<noteq> shape dem_array
      then Inl (ValueError ''SAR and DEM dimensions mismatch'')
      else case apply_threshold otsu sar_array threshold use_otsu of
             Inl e \<Rightarrow> Inl e
           | Inr water_mask \<Rightarrow>
               (case apply_dem_mask water_mask dem_array dem_threshold of
                  Inl e \<Rightarrow> Inl e
                | Inr refined \<Rightarrow> Inr (apply_morphological_operations refined morphology_kernel)))"



section \<open>Normalisation and combination: \<open>multi_hazard.py\<close>\<close>

text \<open>
  Arithmetic on samples propagates NaN. A division by zero would give an infinity or NaN in
  numpy; the code guards every division (\<open>max > min\<close>, \<open>std > 0\<close>), and the model, which
  has no infinities, returns NaN there.
\<close>

fun sample_add :: "sample \<Rightarrow> sample \<Rightarrow> sample" where
  "sample_add (Val a) (Val b) = Val (a + b)"
| "sample_add _ _ = NaN"

fun sample_sub :: "sample \<Rightarrow> sample \<Rightarrow> sample" where
  "sample_sub (Val a) (Val b) = Val (a - b)"
| "sample_sub _ _ = NaN"

fun sample_mul :: "sample \<Rightarrow> sample \<Rightarrow> sample" where
  "sample_mul (Val a) (Val b) = Val (a * b)"
| "sample_mul _ _ = NaN"

fun sample_div :: "sample \<Rightarrow> sample \<Rightarrow> sample" where
  "sample_div (Val a) (Val b) = (if b = 0 then NaN else Val (a / b))"
| "sample_div _ _ = NaN"

fun sample_min :: "sample \<Rightarrow> sample \<Rightarrow> sample" where
  "sample_min (Val a) (Val b) = Val (min a b)"
| "sample_min _ _ = NaN"

fun sample_max :: "sample \<Rightarrow> sample \<Rightarrow> sample" where
  "sample_max (Val a) (Val b) = Val (max a b)"
| "sample_max _ _ = NaN"

fun sample_sqrt :: "sample \<Rightarrow> sample" where
  "sample_sqrt (Val a) = (if a < 0 then NaN else Val (sqrt a))"
| "sample_sqrt NaN = NaN"

fun sample_clip :: "real \<Rightarrow> real \<Rightarrow> sample \<Rightarrow> sample" where
  "sample_clip lo hi (Val a) = Val (min hi (max lo a))"
| "sample_clip lo hi NaN = NaN"

text \<open>
  The reductions of numpy: \<open>min\<close> and \<open>max\<close> run over every sample, return NaN as soon as
  one sample is NaN, and raise ValueError on an empty array; \<open>mean\<close> and \<open>std\<close> of an
  empty array are NaN.
\<close>

fun np_min :: "sample list \<Rightarrow> py_error + sample" where
  "np_min [] = Inl (ValueError ''zero-size array to reduction operation minimum which has no identity'')"
| "np_min (x # xs) = Inr (fold sample_min xs x)"

fun np_max :: "sample list \<Rightarrow> py_error + sample" where
  "np_max [] = Inl (ValueError ''zero-size array to reduction operation maximum which has no identity'')"
| "np_max (x # xs) = Inr (fold sample_max xs x)"

definition np_mean :: "sample list \<Rightarrow> sample" where
  "np_mean xs = sample_div (fold sample_add xs (Val 0)) (Val (real (length xs)))"

definition np_std :: "sample list \<Rightarrow> sample" where
  "np_std xs =
     (let m = np_mean xs
      in sample_sqrt (np_mean (map (\<lambda>x. sample_mul (sample_sub x m) (sample_sub x m)) xs)))"

text \<open>
  The conversion of a number to float32: the nearest number with a 24-bit significand,
  ties to the even significand; below \<open>2^-126\<close> the spacing stays \<open>2^-149\<close>. Beyond the
  largest float32 number numpy gives an infinity, which the model does not have: there
  the definition keeps the spacing of the last binade. NaN stays NaN.
\<close>

definition pow2 :: "int \<Rightarrow> real" where
  "pow2 e = (if 0 \<le> e then 2 ^ nat e else 1 / 2 ^ nat (- e))"

definition float32_exponent :: "real \<Rightarrow> int" where
  "float32_exponent x = fold (\<lambda>e acc. if pow2 e \<le> \<bar>x\<bar> then e else acc) [-126..127] (-126)"

definition round_half_even :: "real \<Rightarrow> int" where
  "round_half_even y =
     (let f = \<lfloor>y\<rfloor>
      in if y - of_int f < 1 / 2 then f
         else if 1 / 2 < y - of_int f then f + 1
         else if even f then f else f + 1)"

definition float32_round :: "real \<Rightarrow> real" where
  "float32_round x =
     (let u = pow2 (float32_exponent x - 23) in u * of_int (round_half_even (x / u)))"

definition astype_float32 :: "sample \<Rightarrow> sample" where
  "astype_float32 x = (case x of NaN \<Rightarrow> NaN | Val v \<Rightarrow> Val (float32_round v))"

text \<open>
  \<open>normalize_raster\<close>. The conversion \<open>array.astype(np.float32)\<close> is a numpy function:
  it is the parameter \<open>astype\<close>, applied to every sample, and \<open>astype_float32\<close> above is
  the conversion itself. The arithmetic on the converted samples is exact in the model;
  the rounding of each float32 operation is outside it.
\<close>

definition normalize_raster ::
  "(sample \<Rightarrow> sample) \<Rightarrow> sample ndarray \<Rightarrow> string \<Rightarrow> py_error + sample ndarray" where
  "normalize_raster astype array method =
     (let array_f = array_map astype array
      in if method = ''min_max''
         then (case np_min (data array_f) of
                 Inl e \<Rightarrow> Inl e
               | Inr min_val \<Rightarrow>
                   (case np_max (data array_f) of
                      Inl e \<Rightarrow> Inl e
                    | Inr max_val \<Rightarrow>
                        if sample_gt max_val min_val
                        then Inr (array_map (\<lambda>x. sample_div (sample_sub x min_val)
                                                              (sample_sub max_val min_val)) array_f)
                        else Inr array_f))
         else if method = ''z_score''
         then (let mean = np_mean (data array_f);
                   std = np_std (data array_f)
               in if sample_gt std (Val 0)
                  then Inr (array_map (\<lambda>x. sample_clip 0 1 (sample_div (sample_sub x mean) std)) array_f)
                  else Inr array_f)
         else Inl (ValueError (''Unknown normalization method: '' @ method)))"

text \<open>
  Elementwise addition of two arrays with numpy's broadcasting: a dimension of size 1 is
  stretched to the other array's size; other size differences raise ValueError.
\<close>

definition broadcast_dim :: "nat \<Rightarrow> nat \<Rightarrow> nat option" where
  "broadcast_dim m n =
     (if m = n then Some m else if m = 1 then Some n else if n = 1 then Some m else None)"

definition stretch :: "nat \<Rightarrow> 'a list \<Rightarrow> 'a list" where
  "stretch n xs = (case xs of [x] \<Rightarrow> replicate n x | _ \<Rightarrow> xs)"

definition broadcast_to :: "nat \<times> nat \<Rightarrow> 'a ndarray \<Rightarrow> 'a ndarray" where
  "broadcast_to s a =
     \<lparr>shape = s, data = concat (stretch (fst s) (map (stretch (snd s)) (array_rows a)))\<rparr>"

definition array_add :: "sample ndarray \<Rightarrow> sample ndarray \<Rightarrow> py_error + sample ndarray" where
  "array_add a b =
     (case (broadcast_dim (fst (shape a)) (fst (shape b)),
            broadcast_dim (snd (shape a)) (snd (shape b))) of
        (Some h, Some w) \<Rightarrow>
          Inr \<lparr>shape = (h, w),
               data = map2 sample_add (data (broadcast_to (h, w) a)) (data (broadcast_to (h, w) b))\<rparr>
      | _ \<Rightarrow> Inl (ValueError ''operands could not be broadcast together''))"

definition scale :: "real \<Rightarrow> sample ndarray \<Rightarrow> sample ndarray" where
  "scale c a = array_map (sample_mul (Val c)) a"

text \<open>
  A Python dict is an association list with distinct keys; \<open>d[k]\<close> raises KeyError on a
  missing key, and a float division by zero raises ZeroDivisionError.
\<close>

definition getitem :: "(string \<times> 'v) list \<Rightarrow> string \<Rightarrow> py_error + 'v" where
  "getitem d k = (case map_of d k of None \<Rightarrow> Inl (KeyError k) | Some v \<Rightarrow> Inr v)"

definition py_div :: "real \<Rightarrow> real \<Rightarrow> py_error + real" where
  "py_div a b = (if b = 0 then Inl ZeroDivisionError else Inr (a / b))"

definition bind :: "py_error + 'a \<Rightarrow> ('a \<Rightarrow> py_error + 'b) \<Rightarrow> py_error + 'b" where
  "bind r f = (case r of Inl e \<Rightarrow> Inl e | Inr v \<Rightarrow> f v)"

text \<open>The constants of \<open>config.py\<close>.\<close>

definition config_weights :: "(string \<times> real) list" where
  "config_weights = [(''landslide'', 0.4), (''flood'', 0.4), (''exposure'', 0.2)]"

definition config_normalization_method :: string where
  "config_normalization_method = ''min_max''"

definition config_classification_thresholds :: "(string \<times> real) list" where
  "config_classification_thresholds =
     [(''very_low'', 0.2), (''low'', 0.4), (''moderate'', 0.6), (''high'', 0.8)]"

text \<open>
  \<open>combine_hazards\<close>, from the arrays read from disk. The exposure array is \<open>None\<close> when
  no path was given or the file does not exist; \<open>astype\<close> is the conversion to float32
  that \<open>normalize_raster\<close> applies. The first weighted sum is computed and
  then overwritten, so only its exceptions are kept. Saving the result is not modelled.
\<close>

definition weighted_term ::
  "(string \<times> real) list \<Rightarrow> string \<Rightarrow> real \<Rightarrow> sample ndarray \<Rightarrow> py_error + sample ndarray" where
  "weighted_term weights role total_weight layer =
     bind (getitem weights role) (\<lambda>w. bind (py_div w total_weight) (\<lambda>c. Inr (scale c layer)))"

definition combine_hazards ::
  "(sample \<Rightarrow> sample) \<Rightarrow> sample ndarray \<Rightarrow> sample ndarray \<Rightarrow> sample ndarray option
     \<Rightarrow> (string \<times> real) list option \<Rightarrow> py_error + sample ndarray" where
  "combine_hazards astype landslide flood exposure weights_arg =
     (let weights = (case weights_arg of None \<Rightarrow> config_weights | Some w \<Rightarrow> w)
      in bind (normalize_raster astype landslide config_normalization_method) (\<lambda>landslide_norm.
         bind (normalize_raster astype flood config_normalization_method) (\<lambda>flood_norm.
         bind (getitem weights ''landslide'') (\<lambda>wl.
         bind (getitem weights ''flood'') (\<lambda>wf.
         bind (array_add (scale wl landslide_norm) (scale wf flood_norm)) (\<lambda>first_risk.
           case exposure of
             Some exposure_array \<Rightarrow>
               bind (normalize_raster astype exposure_array config_normalization_method) (\<lambda>exposure_norm.
                 let total_weight = sum_list (map snd weights)
                 in bind (weighted_term weights ''landslide'' total_weight landslide_norm) (\<lambda>t1.
                    bind (weighted_term weights ''flood'' total_weight flood_norm) (\<lambda>t2.
                    bind (array_add t1 t2) (\<lambda>t12.
                    bind (weighted_term weights ''exposure'' total_weight exposure_norm) (\<lambda>t3.
                      array_add t12 t3)))))
           | None \<Rightarrow>
               (let total_weight = wl + wf
                in bind (weighted_term weights ''landslide'' total_weight landslide_norm) (\<lambda>t1.
                   bind (weighted_term weights ''flood'' total_weight flood_norm) (\<lambda>t2.
                     array_add t1 t2)))))))))"

text \<open>
  \<open>classify_risk\<close>. The five masked assignments run in the order of the source; a later
  one overwrites an earlier one. A missing key raises KeyError at its first use.
\<close>

definition classify_risk ::
  "sample ndarray \<Rightarrow> (string \<times> real) list option \<Rightarrow> py_error + 8 word ndarray" where
  "classify_risk risk_array thresholds_arg =
     (let thresholds = (case thresholds_arg of
                          None \<Rightarrow> config_classification_thresholds | Some t \<Rightarrow> t);
          classified = zeros_like risk_array;
          r = data risk_array
      in bind (getitem thresholds ''very_low'') (\<lambda>very_low.
         bind (getitem thresholds ''low'') (\<lambda>low.
         bind (getitem thresholds ''moderate'') (\<lambda>moderate.
         bind (getitem thresholds ''high'') (\<lambda>high.
           let c1 = bool_fill (map (\<lambda>x. sample_le x (Val very_low)) r) 1 (data classified);
               c2 = bool_fill (map (\<lambda>x. sample_gt x (Val very_low) \<and> sample_le x (Val low)) r) 2 c1;
               c3 = bool_fill (map (\<lambda>x. sample_gt x (Val low) \<and> sample_le x (Val moderate)) r) 3 c2;
               c4 = bool_fill (map (\<lambda>x. sample_gt x (Val moderate) \<and> sample_le x (Val high)) r) 4 c3;
               c5 = bool_fill (map (\<lambda>x. sample_gt x (Val high)) r) 5 c4
           in Inr (classified\<lparr>data := c5\<rparr>))))))"

section \<open>Classification: \<open>landslide/model.py\<close> and \<open>utils/raster_utils.py\<close>\<close>

definition class_mapping :: "(string \<times> 8 word) list" where
  "class_mapping = [(''very_low'', 1), (''low'', 2), (''moderate'', 3), (''high'', 4), (''very_high'', 5)]"

definition sorted_classes :: "string list" where
  "sorted_classes = [''very_low'', ''low'', ''moderate'', ''high'', ''very_high'']"

text \<open>
  \<open>enumerate\<close> with the \<open>i == 0\<close> test and \<open>sorted_classes[i-1]\<close>: each class name with
  the name before it, \<open>None\<close> for the first.
\<close>

definition with_previous :: "'a list \<Rightarrow> ('a option \<times> 'a) list" where
  "with_previous xs = zip (None # map Some xs) xs"

fun susceptibility_loop ::
  "sample list \<Rightarrow> (string \<times> real) list \<Rightarrow> (string option \<times> string) list \<Rightarrow> 8 word list
     \<Rightarrow> py_error + 8 word list" where
  "susceptibility_loop probs thresholds [] classified = Inr classified"
| "susceptibility_loop probs thresholds ((prev_class, class_name) # rest) classified =
     (case map_of thresholds class_name of
        None \<Rightarrow> susceptibility_loop probs thresholds rest classified
      | Some threshold \<Rightarrow>
          (let mask = (case prev_class of
                         None \<Rightarrow> map (\<lambda>p. sample_le p (Val threshold)) probs
                       | Some pc \<Rightarrow>
                           (let prev_threshold = (case map_of thresholds pc of
                                                    None \<Rightarrow> 0 | Some v \<Rightarrow> v)
                            in map (\<lambda>p. sample_gt p (Val prev_threshold) \<and>
                                         sample_le p (Val threshold)) probs))
           in bind (getitem class_mapping class_name) (\<lambda>v.
                susceptibility_loop probs thresholds rest (bool_fill mask v classified))))"

definition classify_susceptibility ::
  "sample ndarray \<Rightarrow> (string \<times> real) list \<Rightarrow> py_error + 8 word ndarray" where
  "classify_susceptibility probabilities thresholds =
     (let classified = zeros_like probabilities
      in bind (susceptibility_loop (data probabilities) thresholds
                 (with_previous (butlast sorted_classes)) (data classified)) (\<lambda>c.
           case map_of thresholds ''high'' of
             None \<Rightarrow> Inr (classified\<lparr>data := c\<rparr>)
           | Some high \<Rightarrow>
               bind (getitem class_mapping ''very_high'') (\<lambda>v.
                 Inr (classified\<lparr>data :=
                        bool_fill (map (\<lambda>p. sample_gt p (Val high)) (data probabilities)) v c\<rparr>))))"

text \<open>
  \<open>classify_raster\<close>. Class values are the pixel values of the classes, natural numbers
  stored into a uint8 array. Without \<open>class_values\<close> the names are numbered from 1 in
  the order of \<open>sorted(thresholds.keys())\<close>, the alphabetical order of the names.
\<close>

definition default_class_values :: "(string \<times> real) list \<Rightarrow> (string \<times> nat) list" where
  "default_class_values thresholds =
     zip (sort (map fst thresholds)) (map Suc [0 ..< length thresholds])"

fun py_max :: "nat list \<Rightarrow> py_error + nat" where
  "py_max [] = Inl (ValueError ''max() arg is an empty sequence'')"
| "py_max (x # xs) = Inr (fold max xs x)"

fun raster_loop ::
  "sample list \<Rightarrow> (string \<times> nat) list \<Rightarrow> real option \<Rightarrow> (string \<times> real) list \<Rightarrow> 8 word list
     \<Rightarrow> py_error + 8 word list" where
  "raster_loop arr class_values prev [] classified = Inr classified"
| "raster_loop arr class_values prev ((class_name, threshold) # rest) classified =
     (let mask = (case prev of
                    None \<Rightarrow> map (\<lambda>x. sample_le x (Val threshold)) arr
                  | Some prev_threshold \<Rightarrow>
                      map (\<lambda>x. sample_gt x (Val prev_threshold) \<and> sample_le x (Val threshold)) arr)
      in bind (getitem class_values class_name) (\<lambda>v.
           raster_loop arr class_values (Some threshold) rest
             (bool_fill mask (word_of_nat v) classified)))"

definition classify_raster ::
  "sample ndarray \<Rightarrow> (string \<times> real) list \<Rightarrow> (string \<times> nat) list option
     \<Rightarrow> py_error + 8 word ndarray" where
  "classify_raster continuous_array thresholds class_values_arg =
     (let class_values = (case class_values_arg of
                            None \<Rightarrow> default_class_values thresholds | Some cv \<Rightarrow> cv);
          classified = zeros_like continuous_array;
          sorted_thresholds = sort_key snd thresholds
      in bind (raster_loop (data continuous_array) class_values None sorted_thresholds
                 (data classified)) (\<lambda>c.
           if sorted_thresholds \<noteq> []
           then (let highest_threshold = snd (last sorted_thresholds)
                 in bind (py_max (map snd class_values)) (\<lambda>max_class.
                      Inr (classified\<lparr>data :=
                             bool_fill (map (\<lambda>x. sample_gt x (Val highest_threshold))
                                            (data continuous_array))
                                       (word_of_nat max_class) c\<rparr>)))
           else Inr (classified\<lparr>data := c\<rparr>)))"

text \<open>
  The label a single sample ends with after the five assignments of \<open>classify_risk\<close>,
  the last matching assignment winning.
\<close>

definition risk_label :: "real \<Rightarrow> real \<Rightarrow> real \<Rightarrow> real \<Rightarrow> sample \<Rightarrow> 8 word" where
  "risk_label a b c d x =
     (if sample_gt x (Val d) then 5
      else if sample_gt x (Val c) \<and> sample_le x (Val d) then 4
      else if sample_gt x (Val b) \<and> sample_le x (Val c) then 3
      else if sample_gt x (Val a) \<and> sample_le x (Val b) then 2
      else if sample_le x (Val a) then 1
      else 0)"

section \<open>The statistics as the specification words them\<close>

text \<open>
  For comparison with the code: the specification takes the minimum and maximum of
  normalisation over the valid samples only, and the flood percentage over the valid area.
  These definitions follow the specification's words, not the source.
\<close>

definition the_val :: "sample \<Rightarrow> real" where
  "the_val x = (case x of Val v \<Rightarrow> v | NaN \<Rightarrow> 0)"

definition valid_values :: "sample ndarray \<Rightarrow> real list" where
  "valid_values g = map the_val (filter valid_sample (data g))"

definition spec_min_max :: "sample ndarray \<Rightarrow> sample ndarray" where
  "spec_min_max g =
     (let vs = valid_values g
      in if vs = [] then g
         else (let lo = Min (set vs); hi = Max (set vs)
               in if hi = lo then g
                  else array_map (\<lambda>x. if valid_sample x
                                        then sample_div (sample_sub x (Val lo)) (Val (hi - lo))
                                        else x) g))"


section \<open>Mean and standard deviation of a list of numbers\<close>



section \<open>Example inputs\<close>

text \<open>
  In manual mode \<open>threshold_otsu\<close> is never called; the examples pass a stand-in that
  fails if it is.
\<close>

definition no_otsu :: "sample list \<Rightarrow> py_error + real" where
  "no_otsu selected = Inl (LibraryError ''threshold_otsu'')"

text \<open>Reading one pixel of a result.\<close>

definition mask_at :: "py_error + 8 word ndarray \<Rightarrow> nat \<Rightarrow> 8 word option" where
  "mask_at r k = (case r of Inl _ \<Rightarrow> None
                  | Inr m \<Rightarrow> if k < length (data m) then Some (data m ! k) else None)"

text \<open>A single water pixel at sea level.\<close>

definition lone_water_sar :: "sample ndarray" where
  "lone_water_sar = \<lparr>shape = (1, 1), data = [Val (-22)]\<rparr>"

definition lone_water_dem :: "sample ndarray" where
  "lone_water_dem = \<lparr>shape = (1, 1), data = [Val 0]\<rparr>"

text \<open>An 11 by 11 lake whose centre pixel (row 5, column 5) lies at 150 m.\<close>

definition lake_sar :: "sample ndarray" where
  "lake_sar = \<lparr>shape = (11, 11), data = replicate 121 (Val (-22))\<rparr>"

definition lake_dem :: "sample ndarray" where
  "lake_dem = \<lparr>shape = (11, 11), data = (replicate 121 (Val 0))[60 := Val 150]\<rparr>"

text \<open>A row of four pixels: water, land, a nodata pixel and a NaN pixel.\<close>

definition shore_sar :: "sample ndarray" where
  "shore_sar = \<lparr>shape = (1, 4), data = [Val (-22), Val (-6), Val (-9999), NaN]\<rparr>"


text \<open>Two water pixels and a land pixel, the second water pixel at 150 m.\<close>

definition bank_sar :: "sample ndarray" where
  "bank_sar = \<lparr>shape = (1, 3), data = [Val (-22), Val (-22), Val (-6)]\<rparr>"

definition bank_dem :: "sample ndarray" where
  "bank_dem = \<lparr>shape = (1, 3), data = [Val 20, Val 150, Val 20]\<rparr>"

definition bank_water :: "8 word ndarray" where
  "bank_water = \<lparr>shape = (1, 3), data = [1, 1, 0]\<rparr>"

definition tall_dem :: "sample ndarray" where
  "tall_dem = \<lparr>shape = (3, 1), data = [Val 20, Val 150, Val 20]\<rparr>"

text \<open>Grids for normalisation: one with a nodata sample, a constant one, one with a NaN.\<close>

definition gauge :: "sample ndarray" where
  "gauge = \<lparr>shape = (1, 3), data = [Val (-9999), Val 0, Val 10]\<rparr>"

definition plateau :: "sample ndarray" where
  "plateau = \<lparr>shape = (1, 2), data = [Val 7, Val 7]\<rparr>"

definition drift :: "sample ndarray" where
  "drift = \<lparr>shape = (1, 2), data = [Val 7, NaN]\<rparr>"

text \<open>
  Two numbers that are different as float64 and equal once converted to float32, and a
  grid for the z-score.
\<close>

definition collapse :: "sample ndarray" where
  "collapse = \<lparr>shape = (1, 2), data = [Val 16777216, Val 16777217]\<rparr>"


text \<open>Layers and weight tables for the combination.\<close>

definition ramp_up :: "sample ndarray" where
  "ramp_up = \<lparr>shape = (1, 2), data = [Val 0, Val 1]\<rparr>"

definition ramp_down :: "sample ndarray" where
  "ramp_down = \<lparr>shape = (1, 2), data = [Val 1, Val 0]\<rparr>"

definition weights_three :: "(string \<times> real) list" where
  "weights_three = [(''landslide'', 0.35), (''flood'', 0.35), (''exposure'', 0.30)]"

definition weights_with_rainfall :: "(string \<times> real) list" where
  "weights_with_rainfall =
     [(''landslide'', 0.35), (''flood'', 0.35), (''exposure'', 0.30), (''rainfall'', 0.5)]"

definition weights_two :: "(string \<times> real) list" where
  "weights_two = [(''landslide'', 0.35), (''flood'', 0.35)]"

text \<open>Risk grids for classification.\<close>

definition mixed_risk :: "sample ndarray" where
  "mixed_risk = \<lparr>shape = (1, 3), data = [Val (-9999), Val 0, NaN]\<rparr>"

definition two_risks :: "sample ndarray" where
  "two_risks = \<lparr>shape = (1, 2), data = [Val 0.1, Val 0.7]\<rparr>"

text \<open>A full 3 by 3 block and a single pixel in the middle of one.\<close>

definition full_block :: "bool ndarray" where
  "full_block = \<lparr>shape = (3, 3), data = replicate 9 True\<rparr>"

definition centre_pixel :: "bool ndarray" where
  "centre_pixel = \<lparr>shape = (3, 3), data = (replicate 9 False)[4 := True]\<rparr>"

section \<open>Properties\<close>

subsection \<open>Repeating a pass until nothing changes terminates\<close>

lemma chop_rows_grid: "length xs = h * w \<Longrightarrow> grid h w (chop_rows h w xs)"
proof (induction h arbitrary: xs)
  case 0
  then show ?case by (simp add: grid_def)
next
  case (Suc h)
  then have "grid h w (chop_rows h w (drop w xs))" by simp
  with Suc.prems show ?case by (simp add: grid_def)
qed

lemma concat_chop_rows: "length xs = h * w \<Longrightarrow> concat (chop_rows h w xs) = xs"
  by (induction h arbitrary: xs) simp_all

lemma grid_concat_length: "grid h w rs \<Longrightarrow> length (concat rs) = h * w"
  by (induction rs arbitrary: h) (auto simp: grid_def)

lemma grid_horizontal:
  "grid h w rs \<Longrightarrow> grid h w (map left_neighbour rs) \<and> grid h w (map right_neighbour rs)"
  by (auto simp: grid_def left_neighbour_def right_neighbour_def)

lemma grid_vertical:
  "grid h w rs \<Longrightarrow> grid h w (upper_neighbour w rs) \<and> grid h w (lower_neighbour w rs)"
  by (auto simp: grid_def upper_neighbour_def lower_neighbour_def
           dest!: in_set_takeD in_set_dropD)

lemma grid_join_rows: "grid h w xs \<Longrightarrow> grid h w ys \<Longrightarrow> grid h w (join_rows dil xs ys)"
  by (auto simp: grid_def join_rows_def dest!: set_zip_leftD set_zip_rightD elim!: in_set_zipE)

lemma join_rows_towards_same_length:
  "list_all2 (\<lambda>r q. length r = length q) xs ys \<Longrightarrow>
   list_all2 (list_all2 (\<lambda>x y. x \<noteq> dil \<longrightarrow> y \<noteq> dil)) (join_rows dil xs ys) xs"
proof (induction xs ys rule: list_all2_induct)
  case Nil
  then show ?case by (simp add: join_rows_def)
next
  case (Cons r rs q qs)
  from Cons.hyps(1) have "list_all2 (\<lambda>x y. x \<noteq> dil \<longrightarrow> y \<noteq> dil) (map2 (join dil) r q) r"
    by (induction r q rule: list_induct2) (auto simp: join_def)
  with Cons.IH show ?case by (simp add: join_rows_def)
qed

lemma join_rows_towards:
  assumes "grid h w xs" "grid h w ys"
  shows "list_all2 (list_all2 (\<lambda>x y. x \<noteq> dil \<longrightarrow> y \<noteq> dil)) (join_rows dil xs ys) xs"
proof -
  from assms have "list_all2 (\<lambda>r q. length r = length q) xs ys"
    by (auto simp: grid_def list_all2_conv_all_nth)
  then show ?thesis by (rule join_rows_towards_same_length)
qed

lemma list_all2_concat:
  "list_all2 (list_all2 R) xss yss \<Longrightarrow> list_all2 R (concat xss) (concat yss)"
  by (induction xss yss rule: list_all2_induct) (simp_all add: list_all2_appendI)

lemma binary_step_shape: "shape (binary_step dil a) = shape a"
  by (simp add: binary_step_def Let_def)

lemma binary_step_towards:
  assumes "wf_array a"
  shows "list_all2 (\<lambda>x y. x \<noteq> dil \<longrightarrow> y \<noteq> dil) (data (binary_step dil a)) (data a)"
proof -
  let ?h = "fst (shape a)" and ?w = "snd (shape a)"
  let ?rs = "array_rows a"
  let ?hor = "join_rows dil (map left_neighbour ?rs) (map right_neighbour ?rs)"
  let ?ver = "join_rows dil (upper_neighbour ?w ?rs) (lower_neighbour ?w ?rs)"
  have g: "grid ?h ?w ?rs"
    using assms by (simp add: array_rows_def wf_array_def chop_rows_grid)
  have "grid ?h ?w ?hor" using grid_horizontal [OF g] by (simp add: grid_join_rows)
  moreover have "grid ?h ?w ?ver" using grid_vertical [OF g] by (simp add: grid_join_rows)
  ultimately have "grid ?h ?w (join_rows dil ?hor ?ver)" by (rule grid_join_rows)
  with g have "list_all2 (list_all2 (\<lambda>x y. x \<noteq> dil \<longrightarrow> y \<noteq> dil))
                 (join_rows dil ?rs (join_rows dil ?hor ?ver)) ?rs"
    by (rule join_rows_towards)
  then have "list_all2 (\<lambda>x y. x \<noteq> dil \<longrightarrow> y \<noteq> dil)
               (concat (join_rows dil ?rs (join_rows dil ?hor ?ver))) (concat ?rs)"
    by (rule list_all2_concat)
  moreover have "concat ?rs = data a"
    using assms by (simp add: array_rows_def wf_array_def concat_chop_rows)
  ultimately show ?thesis using assms by (simp add: binary_step_def Let_def)
qed

lemma binary_step_wf: "wf_array a \<Longrightarrow> wf_array (binary_step dil a)"
  using binary_step_towards [of a dil]
  by (auto simp: wf_array_def binary_step_shape dest: list_all2_lengthD)

lemma filter_length_strict:
  "list_all2 (\<lambda>x y. P x \<longrightarrow> P y) xs ys \<Longrightarrow> (\<forall>x y. P x = P y \<longrightarrow> x = y) \<Longrightarrow> xs \<noteq> ys \<Longrightarrow>
   length (filter P xs) < length (filter P ys)"
proof (induction xs ys rule: list_all2_induct)
  case Nil
  then show ?case by simp
next
  case (Cons x xs y ys)
  have le: "length (filter P xs) \<le> length (filter P ys)"
  proof (cases "xs = ys")
    case True
    then show ?thesis by simp
  next
    case False
    with Cons show ?thesis by simp
  qed
  show ?case
  proof (cases "xs = ys")
    case True
    with Cons.prems have "x \<noteq> y" by simp
    with Cons.prems have "P x \<noteq> P y" by blast
    with Cons.hyps True show ?thesis by auto
  next
    case False
    with Cons have "length (filter P xs) < length (filter P ys)" by simp
    with Cons.hyps show ?thesis by auto
  qed
qed

lemma unsettled_decreases:
  assumes "binary_step dil a \<noteq> a"
  shows "unsettled dil (binary_step dil a) < unsettled dil a"
proof -
  let ?b = "binary_step dil a"
  from assms have wf: "wf_array a" by (rule contrapos_np) (simp add: binary_step_def)
  have ne: "data ?b \<noteq> data a"
  proof
    assume "data ?b = data a"
    moreover have "shape ?b = shape a" by (rule binary_step_shape)
    ultimately have "?b = a" using wf by (simp add: binary_step_def Let_def)
    with assms show False by simp
  qed
  have inj: "\<forall>x y. (x \<noteq> dil) = (y \<noteq> dil) \<longrightarrow> x = y" by auto
  show ?thesis
    unfolding unsettled_def
    by (rule filter_length_strict [OF binary_step_towards [OF wf] inj ne])
qed

termination until_stable
  by (relation "measure (\<lambda>(dil, a). unsettled dil a)") (auto simp: unsettled_decreases)

text \<open>
  One pass on a 3 by 3 array: erosion of the full block leaves the centre pixel, whose
  four neighbours are inside and set; dilation of the centre pixel gives the cross.
\<close>

lemma binary_step_examples:
  "binary_step False full_block = centre_pixel \<and>
   data (binary_step True centre_pixel)
     = [False, True, False, True, True, True, False, True, False] \<and>
   binary_erosion full_block 0 = \<lparr>shape = (3, 3), data = replicate 9 False\<rparr>"
  by code_simp

subsection \<open>Boolean indexing\<close>

lemma bool_index_length_le: "length (bool_index ms xs) \<le> length xs"
  by (induction ms xs rule: bool_index.induct) auto

lemma bool_assign_select:
  "length ms = length xs \<Longrightarrow> length cs = length xs \<Longrightarrow>
   bool_assign ms (map f (bool_index ms xs)) cs
     = map (\<lambda>(m, x, c). if m then f x else c) (zip ms (zip xs cs))"
proof (induction ms arbitrary: xs cs)
  case Nil
  then show ?case by simp
next
  case (Cons m ms)
  then obtain x xs' c cs' where "xs = x # xs'" "cs = c # cs'"
    by (metis length_Suc_conv)
  with Cons show ?case by (cases m) simp_all
qed

lemma bool_fill_nth:
  "length ms = length cs \<Longrightarrow> k < length cs \<Longrightarrow>
   bool_fill ms v cs ! k = (if ms ! k then v else cs ! k)"
proof (induction ms v cs arbitrary: k rule: bool_fill.induct)
  case (1 m ms v c cs)
  then show ?case by (cases k) simp_all
qed simp_all

lemma bool_fill_length: "length (bool_fill ms v cs) = length cs"
  by (induction ms v cs rule: bool_fill.induct) simp_all


subsection \<open>Thresholding\<close>

lemma select_zip_map:
  "map (\<lambda>(m, x, c). if m then f x else c) (zip (map p xs) (zip xs (replicate (length xs) z)))
     = map (\<lambda>x. if p x then f x else z) xs"
  by (induction xs) simp_all

lemma apply_threshold_manual_data:
  "apply_threshold otsu sar (Some t) False =
     Inr \<lparr>shape = shape sar,
          data = map (\<lambda>x. if valid_sample x then astype_uint8 (sample_lt x (Val t)) else 0)
                     (data sar)\<rparr>"
  by (simp add: apply_threshold_def zeros_like_def bool_assign_select select_zip_map)

text \<open>
  C7. In manual mode with threshold \<open>t\<close> the mask has the shape of the grid; a pixel is 1
  exactly when its sample is valid (neither NaN nor the nodata value -9999) and strictly
  below \<open>t\<close>, and 0 otherwise; NaN and nodata pixels are 0.
\<close>

theorem apply_threshold_manual:
  "\<exists>out. apply_threshold otsu sar (Some t) False = Inr out \<and> shape out = shape sar \<and>
         length (data out) = length (data sar) \<and>
         (\<forall>k < length (data sar).
            (data out ! k = 1 \<longleftrightarrow> valid_sample (data sar ! k) \<and> sample_lt (data sar ! k) (Val t)) \<and>
            (data out ! k = 0 \<longleftrightarrow> \<not> (valid_sample (data sar ! k) \<and> sample_lt (data sar ! k) (Val t))) \<and>
            (data sar ! k = NaN \<or> data sar ! k = Val nodata_value \<longrightarrow> data out ! k = 0))"
  by (auto simp: apply_threshold_manual_data astype_uint8_def valid_sample_def)

theorem apply_threshold_manual_witness:
  "\<exists>out. apply_threshold no_otsu shore_sar (Some (-18)) False = Inr out \<and>
         data out ! 0 = 1 \<and> data out ! 1 = 0 \<and> data out ! 2 = 0 \<and> data out ! 3 = 0"
proof -
  from apply_threshold_manual [of no_otsu shore_sar "-18"]
  obtain out where out: "apply_threshold no_otsu shore_sar (Some (-18)) False = Inr out"
    and px: "\<And>k. k < length (data shore_sar) \<Longrightarrow>
            (data out ! k = 1 \<longleftrightarrow>
               valid_sample (data shore_sar ! k) \<and> sample_lt (data shore_sar ! k) (Val (-18))) \<and>
            (data out ! k = 0 \<longleftrightarrow>
               \<not> (valid_sample (data shore_sar ! k) \<and> sample_lt (data shore_sar ! k) (Val (-18)))) \<and>
            (data shore_sar ! k = NaN \<or> data shore_sar ! k = Val nodata_value \<longrightarrow> data out ! k = 0)"
    by blast
  have "data out ! 0 = 1"
    using px [of 0] by (simp add: shore_sar_def valid_sample_def nodata_value_def)
  moreover have "data out ! 1 = 0"
    using px [of 1] by (simp add: shore_sar_def valid_sample_def nodata_value_def)
  moreover have "data out ! 2 = 0"
    using px [of 2] by (simp add: shore_sar_def valid_sample_def nodata_value_def)
  moreover have "data out ! 3 = 0"
    using px [of 3] by (simp add: shore_sar_def valid_sample_def nodata_value_def)
  ultimately show ?thesis using out by blast
qed

text \<open>
  C10. In automatic mode the mask does not depend on the manual threshold argument: two
  runs on the same grid with different manual thresholds return the same result, from
  \<open>apply_threshold\<close> and from the whole pipeline.
\<close>

theorem apply_threshold_otsu_ignores_manual:
  "apply_threshold otsu sar t1 True = apply_threshold otsu sar t2 True \<and>
   process_sar_for_flood otsu sar dem t1 True dem_threshold morphology_kernel
     = process_sar_for_flood otsu sar dem t2 True dem_threshold morphology_kernel"
  by (simp add: apply_threshold_def process_sar_for_flood_def)

subsection \<open>The elevation filter\<close>

lemma apply_dem_mask_pixels:
  assumes "wf_array water" "wf_array dem" "shape water = shape dem"
  shows "\<exists>out. apply_dem_mask water dem elevation_threshold = Inr out \<and>
           shape out = shape water \<and> length (data out) = length (data water) \<and>
           (\<forall>k < length (data water).
              data out ! k
                = (if sample_gt (data dem ! k) (Val elevation_threshold) then 0 else data water ! k))"
proof -
  from assms have len: "length (data dem) = length (data water)"
    by (simp add: wf_array_def)
  then show ?thesis
    using assms(3) by (simp add: apply_dem_mask_def array_map_def bool_fill_length bool_fill_nth)
qed

text \<open>
  C9. On a mask and an elevation grid of the same shape the filter returns a mask of that
  shape in which a pixel is 0 where the elevation is strictly above the threshold and
  unchanged elsewhere; no pixel is larger than in the input.
\<close>

theorem apply_dem_mask_frame:
  assumes "wf_array water" "wf_array dem" "shape water = shape dem"
  shows "\<exists>out. apply_dem_mask water dem elevation_threshold = Inr out \<and>
           shape out = shape water \<and> length (data out) = length (data water) \<and>
           (\<forall>k < length (data water).
              data out ! k
                = (if sample_gt (data dem ! k) (Val elevation_threshold) then 0 else data water ! k) \<and>
              data out ! k \<le> data water ! k)"
  using apply_dem_mask_pixels [OF assms, of elevation_threshold] by auto

theorem apply_dem_mask_frame_witness:
  "\<exists>out. apply_dem_mask bank_water bank_dem 100 = Inr out \<and>
         shape out = shape bank_water \<and> length (data out) = length (data bank_water) \<and>
         (\<forall>k < length (data bank_water).
            data out ! k = (if sample_gt (data bank_dem ! k) (Val 100) then 0 else data bank_water ! k) \<and>
            data out ! k \<le> data bank_water ! k)"
proof -
  have "wf_array bank_water" "wf_array bank_dem" "shape bank_water = shape bank_dem"
    by (simp_all add: wf_array_def bank_water_def bank_dem_def)
  then show ?thesis by (rule apply_dem_mask_frame)
qed

subsection \<open>The pipeline\<close>

text \<open>
  C8. When the two grids differ in shape the pipeline raises the dimension-mismatch error
  (a \<open>ValueError\<close> in the Python code) and returns no mask, whatever the other arguments.
\<close>

theorem process_dimension_mismatch:
  "shape sar \<noteq> shape dem \<Longrightarrow>
   process_sar_for_flood otsu sar dem threshold use_otsu dem_threshold morphology_kernel
     = Inl (ValueError ''SAR and DEM dimensions mismatch'')"
  by (simp add: process_sar_for_flood_def)

theorem process_dimension_mismatch_witness:
  "process_sar_for_flood no_otsu bank_sar tall_dem (Some (-18)) False 100 3
     = Inl (ValueError ''SAR and DEM dimensions mismatch'')"
proof -
  have "shape bank_sar \<noteq> shape tall_dem" by (simp add: bank_sar_def tall_dem_def)
  then show ?thesis by (rule process_dimension_mismatch)
qed

text \<open>
  C1 as stated fails. With the configured threshold -18, ceiling 100 and kernel 3: a lone
  water pixel is erased by the cleanup; and in the 11 by 11 lake the centre pixel, raised
  to 150 m, is still 1 in the final mask, because closing fills the hole.
\<close>

theorem flood_pipeline_counterexample:
  "data lone_water_sar ! 0 = Val (-22) \<and>
   mask_at (process_sar_for_flood no_otsu lone_water_sar lone_water_dem (Some (-18)) False 100 3) 0
     = Some 0 \<and>
   data lake_sar ! 60 = Val (-22) \<and> data lake_dem ! 60 = Val 150 \<and>
   mask_at (process_sar_for_flood no_otsu lake_sar lake_dem (Some (-18)) False 100 3) 60 = Some 1"
  by code_simp

text \<open>
  C1 as amended. In manual mode with threshold -18, on a grid of water pixels (-22) and
  land pixels (-6) with an elevation grid of the same shape, the thresholded mask is 1
  exactly on the water pixels, the mask after the elevation filter is 1 exactly on the
  water pixels whose elevation is not above the ceiling and 0 elsewhere, and the pipeline
  returns the morphological cleanup of that mask.
\<close>

theorem flood_pipeline_manual:
  assumes "wf_array sar" "wf_array dem" "shape sar = shape dem"
      and "set (data sar) \<subseteq> {Val (-22), Val (-6)}"
  shows "\<exists>water refined.
           apply_threshold otsu sar (Some (-18)) False = Inr water \<and>
           apply_dem_mask water dem dem_threshold = Inr refined \<and>
           process_sar_for_flood otsu sar dem (Some (-18)) False dem_threshold morphology_kernel
             = Inr (apply_morphological_operations refined morphology_kernel) \<and>
           shape refined = shape sar \<and> length (data water) = length (data sar) \<and>
           length (data refined) = length (data sar) \<and>
           (\<forall>k < length (data sar).
              (data water ! k = 1 \<longleftrightarrow> data sar ! k = Val (-22)) \<and>
              (data water ! k = 0 \<longleftrightarrow> data sar ! k = Val (-6)) \<and>
              (data refined ! k = 1 \<longleftrightarrow>
                 data sar ! k = Val (-22) \<and> \<not> sample_gt (data dem ! k) (Val dem_threshold)) \<and>
              (data refined ! k \<noteq> 1 \<longrightarrow> data refined ! k = 0))"
proof -
  let ?water = "\<lparr>shape = shape sar,
                 data = map (\<lambda>x. if valid_sample x then astype_uint8 (sample_lt x (Val (-18))) else 0)
                            (data sar)\<rparr>"
  have w: "apply_threshold otsu sar (Some (-18)) False = Inr ?water"
    by (rule apply_threshold_manual_data)
  have wfw: "wf_array ?water" using assms(1) by (simp add: wf_array_def)
  have shw: "shape ?water = shape dem" using assms(3) by simp
  from apply_dem_mask_pixels [OF wfw assms(2) shw, of dem_threshold]
  obtain refined where r: "apply_dem_mask ?water dem dem_threshold = Inr refined"
      "shape refined = shape ?water" "length (data refined) = length (data ?water)"
      and px: "\<forall>k < length (data ?water).
                 data refined ! k
                   = (if sample_gt (data dem ! k) (Val dem_threshold) then 0 else data ?water ! k)"
    by blast
  have sar: "data sar ! k = Val (-22) \<or> data sar ! k = Val (-6)" if "k < length (data sar)" for k
    using assms(4) that nth_mem by blast
  have "process_sar_for_flood otsu sar dem (Some (-18)) False dem_threshold morphology_kernel
          = Inr (apply_morphological_operations refined morphology_kernel)"
    using assms(3) w r(1) by (simp add: process_sar_for_flood_def)
  moreover have "(data ?water ! k = 1 \<longleftrightarrow> data sar ! k = Val (-22)) \<and>
        (data ?water ! k = 0 \<longleftrightarrow> data sar ! k = Val (-6)) \<and>
        (data refined ! k = 1 \<longleftrightarrow>
           data sar ! k = Val (-22) \<and> \<not> sample_gt (data dem ! k) (Val dem_threshold)) \<and>
        (data refined ! k \<noteq> 1 \<longrightarrow> data refined ! k = 0)"
    if "k < length (data sar)" for k
    using sar [OF that] px that
    by (auto simp: valid_sample_def nodata_value_def astype_uint8_def)
  ultimately show ?thesis using w r by auto
qed

theorem flood_pipeline_manual_witness:
  "\<exists>water refined.
     apply_threshold no_otsu bank_sar (Some (-18)) False = Inr water \<and>
     apply_dem_mask water bank_dem 100 = Inr refined \<and>
     process_sar_for_flood no_otsu bank_sar bank_dem (Some (-18)) False 100 3
       = Inr (apply_morphological_operations refined 3) \<and>
     shape refined = shape bank_sar \<and> length (data water) = length (data bank_sar) \<and>
     length (data refined) = length (data bank_sar) \<and>
     (\<forall>k < length (data bank_sar).
        (data water ! k = 1 \<longleftrightarrow> data bank_sar ! k = Val (-22)) \<and>
        (data water ! k = 0 \<longleftrightarrow> data bank_sar ! k = Val (-6)) \<and>
        (data refined ! k = 1 \<longleftrightarrow>
           data bank_sar ! k = Val (-22) \<and> \<not> sample_gt (data bank_dem ! k) (Val 100)) \<and>
        (data refined ! k \<noteq> 1 \<longrightarrow> data refined ! k = 0))"
proof -
  have "wf_array bank_sar" "wf_array bank_dem" "shape bank_sar = shape bank_dem"
       "set (data bank_sar) \<subseteq> {Val (-22), Val (-6)}"
    by (simp_all add: wf_array_def bank_sar_def bank_dem_def)
  then show ?thesis by (rule flood_pipeline_manual)
qed

subsection \<open>The conversion to float32\<close>

text \<open>
  The exponent of a number in the normal range is the one of its binade, and the
  conversion of the numbers of the examples: all are float32 numbers but 16777217, which
  lies between two of them and goes to the even one.
\<close>

lemma pow2_powr: "pow2 e = 2 powr (real_of_int e)"
proof (cases "0 \<le> e")
  case True
  then show ?thesis by (simp add: pow2_def powr_realpow [symmetric])
next
  case False
  then have "2 powr (real_of_int e) = 1 / 2 powr (real_of_int (- e))"
    by (simp add: powr_minus_divide)
  also have "\<dots> = 1 / 2 ^ nat (- e)"
    using False by (simp add: powr_realpow [symmetric])
  finally show ?thesis using False by (simp add: pow2_def)
qed

lemma pow2_mono: "d \<le> e \<Longrightarrow> pow2 d \<le> pow2 e"
  by (simp add: pow2_powr)

lemma fold_keep_none:
  "\<forall>e \<in> set es. \<not> P e \<Longrightarrow> fold (\<lambda>e acc. if P e then e else acc) es a = a"
  by (induction es arbitrary: a) simp_all

lemma fold_keep_last:
  "P e \<Longrightarrow> \<forall>k \<in> set es. \<not> P k \<Longrightarrow>
   fold (\<lambda>e acc. if P e then e else acc) (ds @ e # es) a = e"
  by (simp add: fold_keep_none)

lemma float32_exponent_normal:
  assumes "- 126 \<le> e" "e \<le> 127" "pow2 e \<le> \<bar>x\<bar>" "\<bar>x\<bar> < pow2 (e + 1)"
  shows "float32_exponent x = e"
proof -
  have split: "[- 126..127] = [- 126..e - 1] @ e # [e + 1..127]"
    using assms(1,2) by (rule upto_split3)
  have "\<forall>k \<in> set [e + 1..127]. \<not> pow2 k \<le> \<bar>x\<bar>"
  proof
    fix k assume "k \<in> set [e + 1..127]"
    then have "pow2 (e + 1) \<le> pow2 k" by (simp add: pow2_mono)
    with assms(4) show "\<not> pow2 k \<le> \<bar>x\<bar>" by simp
  qed
  with assms(3) show ?thesis
    unfolding float32_exponent_def split by (rule fold_keep_last)
qed

lemma float32_exponent_zero: "float32_exponent 0 = - 126"
proof -
  have "\<forall>e \<in> set [- 126..127]. \<not> pow2 e \<le> \<bar>0 :: real\<bar>"
    by (simp add: pow2_powr not_le)
  then show ?thesis unfolding float32_exponent_def by (rule fold_keep_none)
qed

lemma float32_round_examples:
  "float32_round 0 = 0" "float32_round 1 = 1" "float32_round 2 = 2" "float32_round 7 = 7"
  "float32_round 10 = 10" "float32_round (- 9999) = - 9999"
  "float32_round 16777216 = 16777216" "float32_round 16777217 = 16777216"
proof -
  have e: "float32_exponent 1 = 0" "float32_exponent 2 = 1" "float32_exponent 7 = 2"
    "float32_exponent 10 = 3"
    "float32_exponent (- 9999) = 13" "float32_exponent 16777216 = 24"
    "float32_exponent 16777217 = 24"
    by (rule float32_exponent_normal; simp add: pow2_def)+
  show "float32_round 0 = 0" "float32_round 1 = 1" "float32_round 2 = 2" "float32_round 7 = 7"
    "float32_round 10 = 10" "float32_round (- 9999) = - 9999"
    "float32_round 16777216 = 16777216" "float32_round 16777217 = 16777216"
    by (simp_all add: float32_round_def float32_exponent_zero e pow2_def round_half_even_def)
qed

lemma astype_float32_examples:
  "astype_float32 NaN = NaN"
  "astype_float32 (Val 0) = Val 0" "astype_float32 (Val 1) = Val 1"
  "astype_float32 (Val 2) = Val 2"
  "astype_float32 (Val 7) = Val 7" "astype_float32 (Val 10) = Val 10"
  "astype_float32 (Val (- 9999)) = Val (- 9999)"
  "astype_float32 (Val 16777216) = Val 16777216"
  "astype_float32 (Val 16777217) = Val 16777216"
  by (simp_all add: astype_float32_def float32_round_examples)


subsection \<open>Normalisation and statistics\<close>

lemma fold_sample_min_Val: "fold sample_min (map Val vs) (Val v) = Val (fold min vs v)"
  by (induction vs arbitrary: v) simp_all

lemma fold_sample_max_Val: "fold sample_max (map Val vs) (Val v) = Val (fold max vs v)"
  by (induction vs arbitrary: v) simp_all

lemma np_min_Val: "vs \<noteq> [] \<Longrightarrow> np_min (map Val vs) = Inr (Val (Min (set vs)))"
  by (cases vs) (simp_all add: fold_sample_min_Val Min.set_eq_fold [symmetric, simplified])

lemma np_max_Val: "vs \<noteq> [] \<Longrightarrow> np_max (map Val vs) = Inr (Val (Max (set vs)))"
  by (cases vs) (simp_all add: fold_sample_max_Val Max.set_eq_fold [symmetric, simplified])

lemma fold_sample_min_NaN: "fold sample_min xs NaN = NaN"
  by (induction xs) simp_all

lemma fold_sample_max_NaN: "fold sample_max xs NaN = NaN"
  by (induction xs) simp_all

lemma sample_min_NaN_right: "sample_min x NaN = NaN"
  by (cases x) simp_all

lemma sample_max_NaN_right: "sample_max x NaN = NaN"
  by (cases x) simp_all

lemma fold_sample_min_has_NaN: "NaN \<in> set xs \<Longrightarrow> fold sample_min xs x = NaN"
  by (induction xs arbitrary: x) (auto simp: fold_sample_min_NaN sample_min_NaN_right)

lemma fold_sample_max_has_NaN: "NaN \<in> set xs \<Longrightarrow> fold sample_max xs x = NaN"
  by (induction xs arbitrary: x) (auto simp: fold_sample_max_NaN sample_max_NaN_right)

lemma np_min_NaN: "NaN \<in> set xs \<Longrightarrow> np_min xs = Inr NaN"
  by (cases xs) (auto simp: fold_sample_min_NaN fold_sample_min_has_NaN)

lemma np_max_NaN: "NaN \<in> set xs \<Longrightarrow> np_max xs = Inr NaN"
  by (cases xs) (auto simp: fold_sample_max_NaN fold_sample_max_has_NaN)



lemma unit_interval:
  fixes v lo hi :: real
  assumes "lo \<le> v" "v \<le> hi" "lo < hi"
  shows "0 \<le> (v - lo) / (hi - lo) \<and> (v - lo) / (hi - lo) \<le> 1"
  using assms by (simp add: divide_simps)





lemma normalize_min_max_numbers:
  assumes "map astype (data g) = map Val vs" "vs \<noteq> []"
  shows "normalize_raster astype g ''min_max'' =
        Inr (if Min (set vs) < Max (set vs)
             then \<lparr>shape = shape g,
                   data = map (\<lambda>v. Val ((v - Min (set vs)) / (Max (set vs) - Min (set vs)))) vs\<rparr>
             else array_map astype g)"
  using assms by (simp add: normalize_raster_def np_min_Val np_max_Val array_map_def)


text \<open>
  C5 as stated fails. With a nodata sample in the grid the code's result differs from the
  normalisation over the valid samples: the minimum is the nodata value. And a constant
  grid of 7 is returned unchanged, outside [0, 1].
\<close>

theorem normalize_min_max_counterexample:
  "normalize_raster astype_float32 gauge ''min_max'' \<noteq> Inr (spec_min_max gauge) \<and>
   normalize_raster astype_float32 plateau ''min_max'' = Inr plateau \<and>
   data plateau ! 0 = Val 7 \<and> \<not> (7 \<le> (1::real))"
  by (simp add: normalize_raster_def array_map_def gauge_def plateau_def spec_min_max_def
        valid_values_def valid_sample_def nodata_value_def the_val_def astype_float32_examples)

text \<open>
  C5 as amended. The grid is converted to float32 first, and the statement is about the
  converted samples. When they are numbers (no NaN) and the grid is not empty, min_max
  normalisation maps every converted sample \<open>x\<close> to \<open>(x - min) / (max - min)\<close> with the
  minimum and maximum over all converted samples, and then every output lies in [0, 1],
  provided \<open>min < max\<close>; when \<open>min = max\<close> after the conversion the converted grid is
  returned. A grid with a NaN sample is returned as converted. The statement holds for
  every conversion \<open>astype\<close>, so for float32; the quotient is the exact one.
\<close>

theorem normalize_min_max:
  "(map astype (data g) = map Val vs \<and> vs \<noteq> [] \<longrightarrow>
      normalize_raster astype g ''min_max'' =
        Inr (if Min (set vs) < Max (set vs)
             then \<lparr>shape = shape g,
                   data = map (\<lambda>v. Val ((v - Min (set vs)) / (Max (set vs) - Min (set vs)))) vs\<rparr>
             else array_map astype g) \<and>
      (Min (set vs) < Max (set vs) \<longrightarrow>
         (\<forall>v \<in> set vs. 0 \<le> (v - Min (set vs)) / (Max (set vs) - Min (set vs)) \<and>
                        (v - Min (set vs)) / (Max (set vs) - Min (set vs)) \<le> 1))) \<and>
   (NaN \<in> set (map astype (data g)) \<longrightarrow>
      normalize_raster astype g ''min_max'' = Inr (array_map astype g))"
proof (intro conjI impI)
  assume a: "map astype (data g) = map Val vs \<and> vs \<noteq> []"
  then show "normalize_raster astype g ''min_max'' =
        Inr (if Min (set vs) < Max (set vs)
             then \<lparr>shape = shape g,
                   data = map (\<lambda>v. Val ((v - Min (set vs)) / (Max (set vs) - Min (set vs)))) vs\<rparr>
             else array_map astype g)"
    by (simp add: normalize_min_max_numbers)
  assume lt: "Min (set vs) < Max (set vs)"
  show "\<forall>v \<in> set vs. 0 \<le> (v - Min (set vs)) / (Max (set vs) - Min (set vs)) \<and>
                        (v - Min (set vs)) / (Max (set vs) - Min (set vs)) \<le> 1"
  proof
    fix v assume "v \<in> set vs"
    then have "Min (set vs) \<le> v" "v \<le> Max (set vs)" by simp_all
    then show "0 \<le> (v - Min (set vs)) / (Max (set vs) - Min (set vs)) \<and>
                        (v - Min (set vs)) / (Max (set vs) - Min (set vs)) \<le> 1"
      using lt by (rule unit_interval)
  qed
next
  assume "NaN \<in> set (map astype (data g))"
  then show "normalize_raster astype g ''min_max'' = Inr (array_map astype g)"
    by (simp add: normalize_raster_def np_min_NaN np_max_NaN array_map_def)
qed

text \<open>
  With the float32 conversion: the grid with the nodata sample, the two numbers that the
  conversion makes equal (the converted grid comes back, both samples 16777216), and the
  grid with a NaN.
\<close>

theorem normalize_min_max_witness:
  "normalize_raster astype_float32 gauge ''min_max''
     = Inr \<lparr>shape = (1, 3), data = [Val 0, Val (9999 / 10009), Val 1]\<rparr> \<and>
   normalize_raster astype_float32 collapse ''min_max''
     = Inr \<lparr>shape = (1, 2), data = [Val 16777216, Val 16777216]\<rparr> \<and>
   normalize_raster astype_float32 drift ''min_max'' = Inr drift"
proof -
  have h: "map astype_float32 (data gauge) = map Val [-9999, 0, 10] \<and> [-9999, 0, 10 :: real] \<noteq> []"
    by (simp add: gauge_def astype_float32_examples)
  have mm: "Min (set [-9999, 0, 10 :: real]) = -9999" "Max (set [-9999, 0, 10 :: real]) = 10"
    by simp_all
  from normalize_min_max [of astype_float32 gauge "[-9999, 0, 10]"] h
  have "normalize_raster astype_float32 gauge ''min_max'' =
        Inr (if Min (set [-9999, 0, 10 :: real]) < Max (set [-9999, 0, 10])
             then \<lparr>shape = shape gauge,
                   data = map (\<lambda>v. Val ((v - Min (set [-9999, 0, 10])) /
                                        (Max (set [-9999, 0, 10]) - Min (set [-9999, 0, 10]))))
                              [-9999, 0, 10]\<rparr>
             else array_map astype_float32 gauge)"
    by blast
  then have 1: "normalize_raster astype_float32 gauge ''min_max''
     = Inr \<lparr>shape = (1, 3), data = [Val 0, Val (9999 / 10009), Val 1]\<rparr>"
    by (simp add: mm gauge_def)
  have c: "map astype_float32 (data collapse) = map Val [16777216, 16777216] \<and>
           [16777216, 16777216 :: real] \<noteq> []"
    by (simp add: collapse_def astype_float32_examples)
  from normalize_min_max [of astype_float32 collapse "[16777216, 16777216]"] c
  have "normalize_raster astype_float32 collapse ''min_max'' =
        Inr (if Min (set [16777216, 16777216 :: real]) < Max (set [16777216, 16777216])
             then \<lparr>shape = shape collapse,
                   data = map (\<lambda>v. Val ((v - Min (set [16777216, 16777216])) /
                                        (Max (set [16777216, 16777216]) - Min (set [16777216, 16777216]))))
                              [16777216, 16777216]\<rparr>
             else array_map astype_float32 collapse)"
    by blast
  then have 2: "normalize_raster astype_float32 collapse ''min_max''
     = Inr \<lparr>shape = (1, 2), data = [Val 16777216, Val 16777216]\<rparr>"
    by (simp add: collapse_def array_map_def astype_float32_examples)
  have n: "NaN \<in> set (map astype_float32 (data drift))"
    by (simp add: drift_def astype_float32_examples)
  from normalize_min_max [of astype_float32 drift] n
  have "normalize_raster astype_float32 drift ''min_max'' = Inr (array_map astype_float32 drift)"
    by blast
  then have 3: "normalize_raster astype_float32 drift ''min_max'' = Inr drift"
    by (simp add: drift_def array_map_def astype_float32_examples)
  from 1 2 3 show ?thesis by simp
qed





subsection \<open>Combination\<close>

lemmas combine_eval = combine_hazards_def normalize_raster_def config_normalization_method_def
  bind_def getitem_def py_div_def weighted_term_def scale_def array_map_def array_add_def
  broadcast_dim_def broadcast_to_def stretch_def array_rows_def config_weights_def
  astype_float32_examples

text \<open>
  With exposure absent the result depends on the weight table only through its
  \<open>landslide\<close> and \<open>flood\<close> entries; with the weights 0.35, 0.35 and 0.30 both
  renormalised weights are 0.35 / (0.35 + 0.35).
\<close>

lemma combine_hazards_exposure_absent_example:
  "combine_hazards astype_float32 ramp_up ramp_down None (Some weights_three)
     = Inr \<lparr>shape = (1, 2), data = [Val (0.35 / (0.35 + 0.35)), Val (0.35 / (0.35 + 0.35))]\<rparr> \<and>
   combine_hazards astype_float32 ramp_up ramp_down None (Some weights_two)
     = combine_hazards astype_float32 ramp_up ramp_down None (Some weights_three) \<and>
   combine_hazards astype_float32 ramp_up ramp_down None (Some weights_with_rainfall)
     = combine_hazards astype_float32 ramp_up ramp_down None (Some weights_three)"
  by (simp add: combine_eval ramp_up_def ramp_down_def weights_three_def weights_with_rainfall_def
        weights_two_def)

lemma combine_hazards_without_exposure:
  assumes "map_of w1 ''landslide'' = map_of w2 ''landslide''"
      and "map_of w1 ''flood'' = map_of w2 ''flood''"
  shows "combine_hazards astype landslide flood None (Some w1)
           = combine_hazards astype landslide flood None (Some w2)"
  using assms by (simp add: combine_hazards_def weighted_term_def getitem_def)

text \<open>
  C4, the code at the failing input. All three layers are supplied. With the table
  landslide 0.35, flood 0.35, exposure 0.30 the renormalised weights are 0.35, 0.35 and
  0.30: the first pixel carries the flood weight, the second the sum of the other two.
  With one more entry, rainfall 0.5, for a role that is not a layer, the code divides
  by the sum of all four entries: the weights become 7/30, 7/30 and 6/30, they sum
  to 2/3, and the output differs.
\<close>

theorem combine_hazards_extra_role:
  "combine_hazards astype_float32 ramp_up ramp_down (Some ramp_up) (Some weights_three)
     = Inr \<lparr>shape = (1, 2), data = [Val (35 / 100), Val (65 / 100)]\<rparr> \<and>
   combine_hazards astype_float32 ramp_up ramp_down (Some ramp_up) (Some weights_with_rainfall)
     = Inr \<lparr>shape = (1, 2), data = [Val (7 / 30), Val (13 / 30)]\<rparr>"
  by (simp add: combine_eval ramp_up_def ramp_down_def weights_three_def weights_with_rainfall_def)


subsection \<open>Classification\<close>

lemma bool_fill_map:
  "bool_fill (map p xs) v (map f xs) = map (\<lambda>x. if p x then v else f x) xs"
  by (induction xs) simp_all

lemma zeros_map: "replicate (length xs) z = map (\<lambda>_. z) xs"
  by (induction xs) simp_all

lemma classify_risk_data:
  assumes "map_of th ''very_low'' = Some a" "map_of th ''low'' = Some b"
          "map_of th ''moderate'' = Some c" "map_of th ''high'' = Some d"
  shows "classify_risk risk (Some th)
           = Inr \<lparr>shape = shape risk, data = map (risk_label a b c d) (data risk)\<rparr>"
proof -
  have "classify_risk risk (Some th)
          = Inr \<lparr>shape = shape risk,
                 data = map (\<lambda>x. if sample_gt x (Val d) then 5
                             else if sample_gt x (Val c) \<and> sample_le x (Val d) then 4
                             else if sample_gt x (Val b) \<and> sample_le x (Val c) then 3
                             else if sample_gt x (Val a) \<and> sample_le x (Val b) then 2
                             else if sample_le x (Val a) then 1
                             else 0) (data risk)\<rparr>"
    using assms
    by (simp add: classify_risk_def bind_def getitem_def zeros_like_def zeros_map bool_fill_map Let_def)
  then show ?thesis by (simp add: risk_label_def [abs_def])
qed

lemma classify_susceptibility_data:
  assumes "map_of th ''very_low'' = Some a" "map_of th ''low'' = Some b"
          "map_of th ''moderate'' = Some c" "map_of th ''high'' = Some d"
  shows "classify_susceptibility risk th
           = Inr \<lparr>shape = shape risk, data = map (risk_label a b c d) (data risk)\<rparr>"
proof -
  have "classify_susceptibility risk th
          = Inr \<lparr>shape = shape risk,
                 data = map (\<lambda>x. if sample_gt x (Val d) then 5
                             else if sample_gt x (Val c) \<and> sample_le x (Val d) then 4
                             else if sample_gt x (Val b) \<and> sample_le x (Val c) then 3
                             else if sample_gt x (Val a) \<and> sample_le x (Val b) then 2
                             else if sample_le x (Val a) then 1
                             else 0) (data risk)\<rparr>"
    using assms
    by (simp add: classify_susceptibility_def with_previous_def sorted_classes_def
          class_mapping_def bind_def getitem_def zeros_like_def zeros_map bool_fill_map Let_def)
  then show ?thesis by (simp add: risk_label_def [abs_def])
qed

lemma risk_label_zero: "risk_label a b c d x = 0 \<longleftrightarrow> x = NaN"
  by (cases x) (auto simp: risk_label_def)

lemma risk_label_le_5: "risk_label a b c d x \<le> 5"
  by (simp add: risk_label_def)

lemma risk_label_mono:
  assumes "a < b" "b < c" "c < d" "u \<le> v"
  shows "risk_label a b c d (Val u) \<le> risk_label a b c d (Val v)"
  using assms by (auto simp: risk_label_def)

lemma classify_risk_monotone:
  assumes "map_of th ''very_low'' = Some a" "map_of th ''low'' = Some b"
          "map_of th ''moderate'' = Some c" "map_of th ''high'' = Some d"
      and "a < b" "b < c" "c < d"
  shows "\<exists>out. classify_risk risk (Some th) = Inr out \<and> length (data out) = length (data risk) \<and>
           (\<forall>j < length (data risk). \<forall>k < length (data risk). \<forall>u v.
              data risk ! j = Val u \<and> data risk ! k = Val v \<and> u \<le> v
                \<longrightarrow> 1 \<le> data out ! j \<and> data out ! j \<le> data out ! k \<and> data out ! k \<le> 5)"
proof -
  have "1 \<le> risk_label a b c d (Val u)" for u
    by (auto simp: risk_label_def)
  then show ?thesis
    using assms(5-7)
    by (auto simp: classify_risk_data [OF assms(1-4)] risk_label_mono risk_label_le_5)
qed

text \<open>
  C2, the code at the failing input. With the thresholds of \<open>config.py\<close>, whose bounds
  0.2, 0.4, 0.6, 0.8 are strictly increasing, and no \<open>class_values\<close>,
  \<open>classify_raster\<close> numbers the classes in the alphabetical order of their names: the
  sample 0.1 receives label 4 and the larger sample 0.7 receives label 1.
  \<open>classify_risk\<close> labels the same samples 1 and 4.
\<close>

theorem classify_raster_default_labels:
  "classify_raster two_risks config_classification_thresholds None
     = Inr \<lparr>shape = (1, 2), data = [4, 1]\<rparr> \<and>
   default_class_values config_classification_thresholds
     = [(''high'', 1), (''low'', 2), (''moderate'', 3), (''very_low'', 4)] \<and>
   classify_risk two_risks None = Inr \<lparr>shape = (1, 2), data = [1, 4]\<rparr>"
  by code_simp

text \<open>
  C3 as stated fails. The nodata value -9999, and 0, the nodata value of the rasters the
  pipeline writes, are classified like any other number: they receive a real class, not 0.
\<close>

theorem classification_nodata_counterexample:
  "\<not> valid_sample (Val (-9999)) \<and>
   classify_risk mixed_risk None = Inr \<lparr>shape = (1, 3), data = [1, 1, 0]\<rparr> \<and>
   classify_susceptibility mixed_risk config_classification_thresholds
     = Inr \<lparr>shape = (1, 3), data = [1, 1, 0]\<rparr> \<and>
   classify_raster mixed_risk config_classification_thresholds None
     = Inr \<lparr>shape = (1, 3), data = [4, 4, 0]\<rparr>"
  by code_simp

text \<open>
  C3 as amended. When all four thresholds are given, \<open>classify_risk\<close> and
  \<open>classify_susceptibility\<close> return the same grid, of the shape of the input, with
  classes between 0 and 5, in which a sample has class 0 exactly when it is NaN; every
  number, the nodata value included, has a class from 1 to 5.
\<close>

theorem classification_zero_iff_nan:
  assumes "map_of th ''very_low'' = Some a" "map_of th ''low'' = Some b"
          "map_of th ''moderate'' = Some c" "map_of th ''high'' = Some d"
  shows "\<exists>out. classify_risk risk (Some th) = Inr out \<and>
           classify_susceptibility risk th = Inr out \<and>
           shape out = shape risk \<and> length (data out) = length (data risk) \<and>
           (\<forall>k < length (data risk).
              (data out ! k = 0 \<longleftrightarrow> data risk ! k = NaN) \<and> data out ! k \<le> 5)"
  by (simp add: classify_risk_data [OF assms] classify_susceptibility_data [OF assms]
        risk_label_zero risk_label_le_5)

theorem classification_zero_iff_nan_witness:
  "\<exists>out. classify_risk mixed_risk (Some config_classification_thresholds) = Inr out \<and>
     classify_susceptibility mixed_risk config_classification_thresholds = Inr out \<and>
     shape out = shape mixed_risk \<and> length (data out) = length (data mixed_risk) \<and>
     (\<forall>k < length (data mixed_risk).
        (data out ! k = 0 \<longleftrightarrow> data mixed_risk ! k = NaN) \<and> data out ! k \<le> 5)"
proof -
  have "map_of config_classification_thresholds ''very_low'' = Some 0.2"
       "map_of config_classification_thresholds ''low'' = Some 0.4"
       "map_of config_classification_thresholds ''moderate'' = Some 0.6"
       "map_of config_classification_thresholds ''high'' = Some 0.8"
    by (simp_all add: config_classification_thresholds_def)
  then show ?thesis by (rule classification_zero_iff_nan)
qed


end
